theory Spec2Isabelle
  imports Complex_Main "HOL-Library.Char_ord" "HOL-Library.List_Lexorder"
begin

section \<open>Python values, strings and errors\<close>

text \<open>
  The programs are Python. A Python \<open>str\<close> is modelled as a \<open>string\<close>; the string
  methods below are Python's on ASCII text (postcodes are ASCII): \<open>str.upper\<close> maps
  \<open>a..z\<close> to \<open>A..Z\<close> and leaves every other character alone, and the whitespace that
  \<open>str.strip()\<close> and \<open>str.split()\<close> recognise is TAB, LF, VT, FF, CR, FS, GS, RS, US and
  the space. Where a Python \<open>float\<close> is only stored and compared (the coordinates of the
  lookup table, the cells of a frame) it is modelled by the real number it denotes; the
  missing value \<open>float('nan')\<close> is a value of its own. The aggregation, which computes
  with floats, has a type of float64 values of its own.
\<close>

datatype pyval = PNone | PNaN | PNum real | PStr string

datatype py_error = AttributeError | KeyError | ZeroDivisionError

text \<open>Python truthiness (\<open>not x\<close>, \<open>if x:\<close>): \<open>None\<close>, \<open>0.0\<close> and \<open>''\<close> are false, NaN is true.\<close>

fun truthy :: "pyval \<Rightarrow> bool" where
  "truthy PNone = False"
| "truthy PNaN = True"
| "truthy (PNum x) = (x \<noteq> 0)"
| "truthy (PStr s) = (s \<noteq> [])"

text \<open>\<open>pd.isna\<close> / \<open>pd.notna\<close> on a scalar.\<close>

fun isna :: "pyval \<Rightarrow> bool" where
  "isna PNone = True"
| "isna PNaN = True"
| "isna (PNum x) = False"
| "isna (PStr s) = False"

definition is_space :: "char \<Rightarrow> bool" where
  "is_space c = (c \<in> set [CHR 0x09, CHR 0x0A, CHR 0x0B, CHR 0x0C, CHR 0x0D,
                           CHR 0x1C, CHR 0x1D, CHR 0x1E, CHR 0x1F, CHR 0x20])"

definition upper_char :: "char \<Rightarrow> char" where
  "upper_char c =
     (case map_of (zip ''abcdefghijklmnopqrstuvwxyz'' ''ABCDEFGHIJKLMNOPQRSTUVWXYZ'') c of
        Some u \<Rightarrow> u
      | None \<Rightarrow> c)"

definition upper :: "string \<Rightarrow> string" where
  "upper s = map upper_char s"

definition strip :: "string \<Rightarrow> string" where
  "strip s = rev (dropWhile is_space (rev (dropWhile is_space s)))"

text \<open>\<open>s.replace(' ', '')\<close>: only the space character itself is removed.\<close>

definition remove_spaces :: "string \<Rightarrow> string" where
  "remove_spaces s = filter (\<lambda>c. c \<noteq> CHR '' '') s"

text \<open>The slices \<open>s[:-n]\<close> and \<open>s[-n:]\<close> for \<open>n > 0\<close>; on a string shorter than \<open>n\<close>
  Python gives the empty string and the whole string.\<close>

definition slice_to_minus :: "nat \<Rightarrow> string \<Rightarrow> string" where
  "slice_to_minus n s = take (length s - n) s"

definition slice_from_minus :: "nat \<Rightarrow> string \<Rightarrow> string" where
  "slice_from_minus n s = drop (length s - n) s"

section \<open>The postcode lookup table (postcode_dataset.py)\<close>

type_synonym coord = "real \<times> real"

type_synonym postcode_dict = "string \<rightharpoonup> coord"

text \<open>\<open>clean_postcode = postcode.strip().upper().replace(' ', '')\<close>\<close>

definition clean_postcode :: "string \<Rightarrow> string" where
  "clean_postcode s = remove_spaces (upper (strip s))"

text \<open>The list \<open>variants\<close> of \<open>get_coordinates\<close>, in the order the source builds it.\<close>

definition space_variants :: "string \<Rightarrow> string list" where
  "space_variants c =
     [slice_to_minus 3 c @ '' '' @ slice_from_minus 3 c,
      slice_to_minus 2 c @ '' '' @ slice_from_minus 2 c]"

text \<open>The loop \<open>for variant in variants: if variant in dict: return dict[variant]\<close>;
  falling out of the loop reaches the final \<open>return None\<close>.\<close>

fun try_variants :: "postcode_dict \<Rightarrow> string list \<Rightarrow> coord option" where
  "try_variants d [] = None"
| "try_variants d (v # vs) =
     (case d v of Some c \<Rightarrow> Some c | None \<Rightarrow> try_variants d vs)"

text \<open>
  \<open>UKPostcodeDataset.get_coordinates\<close>. \<open>Inl\<close> is a raised exception: a truthy argument
  that is not a string has no method \<open>strip\<close>. \<open>Inr None\<close> is the returned \<open>None\<close>.
\<close>

definition get_coordinates :: "postcode_dict \<Rightarrow> pyval \<Rightarrow> py_error + coord option" where
  "get_coordinates d postcode =
     (if \<not> truthy postcode then Inr None
      else case postcode of
        PStr s \<Rightarrow>
          (let clean = clean_postcode s in
           case d clean of
             Some c \<Rightarrow> Inr (Some c)
           | None \<Rightarrow>
               if 5 \<le> length clean then Inr (try_variants d (space_variants clean))
               else Inr None)
      | _ \<Rightarrow> Inl AttributeError)"

text \<open>
  The lookup as the specification words it: normalise, exact match, else the variant
  with a space three characters from the end, else the variant with a space two
  characters from the end, else not found.
\<close>

definition get_coordinates_spec :: "postcode_dict \<Rightarrow> string \<Rightarrow> coord option" where
  "get_coordinates_spec d s =
     (let n = clean_postcode s in
      case d n of
        Some c \<Rightarrow> Some c
      | None \<Rightarrow>
          (case d (slice_to_minus 3 n @ '' '' @ slice_from_minus 3 n) of
             Some c \<Rightarrow> Some c
           | None \<Rightarrow> d (slice_to_minus 2 n @ '' '' @ slice_from_minus 2 n)))"

text \<open>The three spacing formats of a space-free postcode: as it is, with a space three
  characters from the end, with a space two characters from the end.\<close>

definition spacing_formats :: "string \<Rightarrow> string list" where
  "spacing_formats core = core # space_variants core"

section \<open>Postcode districts (heatmap_generator.py, dash_app.py)\<close>

text \<open>The character classes \<open>[A-Z]\<close> and \<open>\d\<close> of the pattern.\<close>

definition is_AZ :: "char \<Rightarrow> bool" where
  "is_AZ c = (c \<in> set ''ABCDEFGHIJKLMNOPQRSTUVWXYZ'')"

definition is_digit :: "char \<Rightarrow> bool" where
  "is_digit c = (c \<in> set ''0123456789'')"

text \<open>\<open>str.split()\<close>: the maximal runs of non-whitespace characters, in order.
  \<open>cur\<close> is the token being read.\<close>

fun split_acc :: "string \<Rightarrow> string \<Rightarrow> string list" where
  "split_acc cur [] = (if cur = [] then [] else [cur])"
| "split_acc cur (c # cs) =
     (if is_space c then (if cur = [] then split_acc [] cs else cur # split_acc [] cs)
      else split_acc (cur @ [c]) cs)"

definition split :: "string \<Rightarrow> string list" where
  "split s = split_acc [] s"

text \<open>
  \<open>re.match(r'^([A-Z]{1,2}\d{1,2}[A-Z]?)', district)\<close>, as a backtracking matcher.
  Each quantifier lists the ways it can match a prefix of its input, each with the rest
  of the input, in the order the greedy quantifier tries them: \<open>{1,2}\<close> tries two
  characters before one, \<open>?\<close> tries one character before none. The matches of the
  whole pattern are listed in that order, and \<open>re.match\<close> returns the first.
\<close>

definition rep12 :: "(char \<Rightarrow> bool) \<Rightarrow> string \<Rightarrow> (string \<times> string) list" where
  "rep12 P s =
     (case s of
        [] \<Rightarrow> []
      | a # r \<Rightarrow>
          if P a then
            (case r of
               [] \<Rightarrow> []
             | b # r' \<Rightarrow> if P b then [([a, b], r')] else []) @ [([a], r)]
          else [])"

definition opt1 :: "(char \<Rightarrow> bool) \<Rightarrow> string \<Rightarrow> (string \<times> string) list" where
  "opt1 P s =
     (case s of
        [] \<Rightarrow> []
      | a # r \<Rightarrow> if P a then [([a], r)] else []) @ [([], s)]"

definition district_matches :: "string \<Rightarrow> string list" where
  "district_matches s =
     concat (map (\<lambda>(l, r1).
       concat (map (\<lambda>(dg, r2).
         map (\<lambda>(o1, r3). l @ dg @ o1) (opt1 is_AZ r2))
       (rep12 is_digit r1)))
     (rep12 is_AZ s))"

definition re_match_district :: "string \<Rightarrow> string option" where
  "re_match_district s = (case district_matches s of [] \<Rightarrow> None | m # _ \<Rightarrow> Some m)"

text \<open>
  \<open>extract_postcode_district\<close> (the method of heatmap_generator.py and the local
  function of dash_app.py are the same code). The value that is truthy and not
  missing is a string in the postcode column; for a non-zero number \<open>str(postcode)\<close>
  starts with a digit or a sign, or is \<open>inf\<close>, and the pattern matches none of these.
\<close>

definition extract_postcode_district :: "pyval \<Rightarrow> string option" where
  "extract_postcode_district v =
     (if isna v \<or> \<not> truthy v then None
      else case v of
        PStr s \<Rightarrow>
          (case split (upper (strip s)) of
             [] \<Rightarrow> None
           | district # _ \<Rightarrow> re_match_district district)
      | _ \<Rightarrow> None)"

text \<open>The district as the specification words it: the leading letters plus the first
  digit group of the normalised postcode.\<close>

definition district_prefix_spec :: "string \<Rightarrow> string option" where
  "district_prefix_spec s =
     (let t = upper (strip s);
          letters = takeWhile is_AZ t;
          digits = takeWhile is_digit (dropWhile is_AZ t)
      in if letters = [] \<or> digits = [] then None else Some (letters @ digits))"

text \<open>What the pattern matches at the start of a token, said without backtracking: one
  or two leading letters (a third letter in a row matches nothing), then one or two
  digits, then one more letter if there is one.\<close>

definition district_pattern :: "string \<Rightarrow> string option" where
  "district_pattern t =
     (let letters = takeWhile is_AZ t;
          r1 = dropWhile is_AZ t;
          digits = take 2 (takeWhile is_digit r1);
          r2 = drop (length digits) r1;
          letter = take 1 (takeWhile is_AZ r2)
      in if 1 \<le> length letters \<and> length letters \<le> 2 \<and> 1 \<le> length digits
         then Some (letters @ digits @ letter) else None)"

section \<open>The district aggregator (dash_app.py, heatmap_generator.py)\<close>

text \<open>
  The aggregation computes with the numbers of the frame, which are float64 values. A
  finite float64 is an integer mantissa times a power of two: \<open>Double m e\<close> is the number
  \<open>m * 2 ^ e\<close>, and \<open>dval\<close> is the real number it denotes. (The bounds that float64 puts
  on mantissa and exponent play no part below. The numbers that the aggregation reads
  are finite: \<open>load_data\<close> drops the missing ones and keeps \<open>0 < priceper < 50000\<close>.)
\<close>

datatype double = Double int int

fun dval :: "double \<Rightarrow> real" where
  "dval (Double m e) = (if 0 \<le> e then of_int m * 2 ^ nat e else of_int m / 2 ^ nat (- e))"

text \<open>
  The rows of the frame that \<open>load_data\<close> returns and the aggregation reads. \<open>load_data\<close>
  drops every row with a missing \<open>priceper\<close>, \<open>lat\<close> or \<open>lon\<close> and sets \<open>area\<close> from the
  file name, so these columns hold numbers and a string. The rows of \<open>district_df\<close> have
  the columns \<open>postcode_district\<close>, \<open>avg_price\<close>, \<open>property_count\<close>, \<open>lat\<close>, \<open>lon\<close>,
  \<open>area\<close>.
\<close>

record located =
  lat :: double
  lon :: double
  area :: string

record price_record = located +
  postcode :: pyval
  priceper :: double

record district_aggregate = located +
  postcode_district :: string
  avg_price :: double
  property_count :: nat

text \<open>
  \<open>DataFrame.groupby(column)\<close> with the defaults of pandas: a row whose key is missing
  belongs to no group, a group holds its rows in frame order, and the groups come out
  sorted by key. A group is its key, its first row and its later rows; the frame is
  read row by row, and a row joins the group of its key or opens a new one.
\<close>

fun add_to_group ::
  "string \<Rightarrow> 'r \<Rightarrow> (string \<times> 'r \<times> 'r list) list \<Rightarrow> (string \<times> 'r \<times> 'r list) list" where
  "add_to_group k r [] = [(k, r, [])]"
| "add_to_group k r ((k', r0, rs) # gs) =
     (if k = k' then (k', r0, rs @ [r]) # gs else (k', r0, rs) # add_to_group k r gs)"

definition group_step ::
  "('r \<Rightarrow> string option) \<Rightarrow> 'r \<Rightarrow> (string \<times> 'r \<times> 'r list) list \<Rightarrow> (string \<times> 'r \<times> 'r list) list" where
  "group_step key r gs = (case key r of None \<Rightarrow> gs | Some k \<Rightarrow> add_to_group k r gs)"

definition groupby :: "('r \<Rightarrow> string option) \<Rightarrow> 'r list \<Rightarrow> (string \<times> 'r \<times> 'r list) list" where
  "groupby key df = sort_key fst (fold (group_step key) df [])"

text \<open>
  \<open>.agg({'priceper': ['mean', 'count'], 'lat': 'mean', 'lon': 'mean', 'area': 'first'})\<close>
  on one group, with the columns renamed as the source renames them. The aggregation
  \<open>'mean'\<close> is computed by pandas in floating point, from the values of the group's
  column in frame order; it is the parameter \<open>fmean\<close>, a function from the list of these
  values to a float64. It is not the exact quotient of sum and count: the result is
  rounded.
\<close>

definition aggregate_group ::
  "(double list \<Rightarrow> double) \<Rightarrow> string \<times> price_record \<times> price_record list \<Rightarrow> district_aggregate" where
  "aggregate_group fmean g =
     (case g of (k, r0, rs) \<Rightarrow>
        \<lparr>lat = fmean (map lat (r0 # rs)),
         lon = fmean (map lon (r0 # rs)),
         area = area r0,
         postcode_district = k,
         avg_price = fmean (map priceper (r0 # rs)),
         property_count = length (r0 # rs)\<rparr>)"

text \<open>
  The aggregation of \<open>update_dashboard\<close> and of \<open>prepare_heatmap_data\<close>: the district
  column, the grouping, the aggregates, and the filter \<open>property_count >= 3\<close>.
\<close>

definition aggregate_districts ::
  "(double list \<Rightarrow> double) \<Rightarrow> price_record list \<Rightarrow> district_aggregate list" where
  "aggregate_districts fmean df =
     filter (\<lambda>a. 3 \<le> property_count a)
       (map (aggregate_group fmean) (groupby (\<lambda>r. extract_postcode_district (postcode r)) df))"

text \<open>The exact arithmetic mean of float64 values, as a real number.\<close>

definition exact_mean :: "double list \<Rightarrow> real" where
  "exact_mean xs = sum_list (map dval xs) / real (length xs)"

text \<open>The records of a frame that belong to a district, in frame order.\<close>

definition district_members :: "price_record list \<Rightarrow> string \<Rightarrow> price_record list" where
  "district_members df k = filter (\<lambda>r. extract_postcode_district (postcode r) = Some k) df"

text \<open>The rows that a list of groups holds under a key.\<close>

definition members_in :: "(string \<times> 'r \<times> 'r list) list \<Rightarrow> string \<Rightarrow> 'r list" where
  "members_in gs k = (case map_of gs k of None \<Rightarrow> [] | Some (r0, rs) \<Rightarrow> r0 # rs)"

text \<open>A frame of five records, three of them in district \<open>N2\<close>, and the one aggregate
  it yields.\<close>

definition example_records :: "price_record list" where
  "example_records =
     [\<lparr>lat = Double 103 (- 1), lon = Double (- 1) (- 2), area = ''Barnet'',
       postcode = PStr ''N2 9QL'', priceper = Double 3000 0\<rparr>,
      \<lparr>lat = Double 102 (- 1), lon = Double (- 1) (- 3), area = ''Westminster'',
       postcode = PStr ''SW1A 1AA'', priceper = Double 9000 0\<rparr>,
      \<lparr>lat = Double 207 (- 2), lon = Double (- 1) (- 3), area = ''Haringey'',
       postcode = PStr ''n2 0aa'', priceper = Double 4000 0\<rparr>,
      \<lparr>lat = Double 413 (- 3), lon = Double (- 3) (- 4), area = ''Barnet'',
       postcode = PStr '' N2  8BD'', priceper = Double 5000 0\<rparr>,
      \<lparr>lat = Double 205 (- 2), lon = Double (- 1) (- 3), area = ''Westminster'',
       postcode = PStr ''SW1A 2AA'', priceper = Double 7000 0\<rparr>]"

definition example_aggregate :: "(double list \<Rightarrow> double) \<Rightarrow> district_aggregate" where
  "example_aggregate fmean =
     \<lparr>lat = fmean [Double 103 (- 1), Double 207 (- 2), Double 413 (- 3)],
      lon = fmean [Double (- 1) (- 2), Double (- 1) (- 3), Double (- 3) (- 4)],
      area = ''Barnet'', postcode_district = ''N2'',
      avg_price = fmean [Double 3000 0, Double 4000 0, Double 5000 0],
      property_count = 3\<rparr>"

text \<open>A frame of three records in district \<open>N2\<close> whose prices 1, 1, 2, latitudes
  51, 51, 52 and longitudes 0, 0, -1 have exact means that are not float64 values.\<close>

definition thirds_records :: "price_record list" where
  "thirds_records =
     [\<lparr>lat = Double 51 0, lon = Double 0 0, area = ''Barnet'',
       postcode = PStr ''N2 9QL'', priceper = Double 1 0\<rparr>,
      \<lparr>lat = Double 51 0, lon = Double 0 0, area = ''Barnet'',
       postcode = PStr ''N2 0AA'', priceper = Double 1 0\<rparr>,
      \<lparr>lat = Double 52 0, lon = Double (- 1) 0, area = ''Barnet'',
       postcode = PStr ''N2 8BD'', priceper = Double 2 0\<rparr>]"

section \<open>Loading the dataset (postcode_dataset.py)\<close>

text \<open>
  \<open>load_postcode_data\<close> reads the file system and the network. What it finds there is
  the environment: the cache file (absent, present but failing to unpickle, or holding
  a dictionary), the local \<open>postcodes.csv\<close> (absent, or a file), the outcome of
  \<open>download_doogal_postcode_data\<close> (\<open>None\<close> when it returns \<open>False\<close>, otherwise the file
  that \<open>postcodes.csv\<close> then is), and whether the cache file can be written. A CSV file
  is one that \<open>pd.read_csv\<close> fails on, or a table with its column names; of a row only
  the three columns that are read matter, \<open>Latitude\<close> and \<open>Longitude\<close> being numeric
  columns in which \<open>None\<close> is NaN.
\<close>

record csv_row =
  csv_postcode :: pyval
  latitude :: "real option"
  longitude :: "real option"

datatype csv_file = CsvUnreadable | CsvTable "string list" "csv_row list"

datatype cache_file = NoCache | BadCache | Cache postcode_dict

record load_env =
  cache :: cache_file
  local_csv :: "csv_file option"
  download :: "csv_file option"
  cache_writable :: bool

text \<open>
  The loop over \<open>postcode_df.iterrows()\<close>. \<open>row['Postcode'].strip()\<close> raises on a value
  that is not a string; the enclosing \<open>except\<close> then returns \<open>False\<close>, and the dictionary
  keeps what was stored so far.
\<close>

fun build_dict :: "csv_row list \<Rightarrow> postcode_dict \<Rightarrow> bool \<times> postcode_dict" where
  "build_dict [] d = (True, d)"
| "build_dict (r # rs) d =
     (case csv_postcode r of
        PStr s \<Rightarrow>
          (case (latitude r, longitude r) of
             (Some la, Some lo) \<Rightarrow> build_dict rs (d(upper (strip s) \<mapsto> (la, lo)))
           | _ \<Rightarrow> build_dict rs d)
      | _ \<Rightarrow> (False, d))"

text \<open>The \<open>try\<close> block of \<open>load_postcode_data\<close>: read the CSV, check the columns, build the
  dictionary, save the cache. The result is the returned flag and \<open>self.postcode_dict\<close>.\<close>

definition load_csv :: "load_env \<Rightarrow> csv_file \<Rightarrow> postcode_dict \<Rightarrow> bool \<times> postcode_dict" where
  "load_csv env f d =
     (case f of
        CsvUnreadable \<Rightarrow> (False, d)
      | CsvTable cols table \<Rightarrow>
          if \<forall>col \<in> set [''Postcode'', ''Latitude'', ''Longitude'']. col \<in> set cols then
            (case build_dict table Map.empty of
               (ok, d') \<Rightarrow> (ok \<and> cache_writable env, d'))
          else (False, d))"

text \<open>The download when the CSV is absent or a download is forced, then the \<open>try\<close> block.\<close>

definition load_from_csv :: "load_env \<Rightarrow> bool \<Rightarrow> postcode_dict \<Rightarrow> bool \<times> postcode_dict" where
  "load_from_csv env force_download d =
     (case (if local_csv env = None \<or> force_download then download env else local_csv env) of
        None \<Rightarrow> (False, d)
      | Some f \<Rightarrow> load_csv env f d)"

text \<open>\<open>UKPostcodeDataset.load_postcode_data\<close>: a cache that loads is used as it is; a cache
  that fails to load falls through to the CSV.\<close>

definition load_postcode_data :: "load_env \<Rightarrow> bool \<Rightarrow> postcode_dict \<Rightarrow> bool \<times> postcode_dict" where
  "load_postcode_data env force_download d =
     (if cache env \<noteq> NoCache \<and> \<not> force_download then
        (case cache env of
           Cache c \<Rightarrow> (True, c)
         | _ \<Rightarrow> load_from_csv env force_download d)
      else load_from_csv env force_download d)"

section \<open>Data frames and geocode_dataframe (postcode_dataset.py)\<close>

text \<open>
  A pandas DataFrame is its list of column names and its list of rows; a row gives the
  value of each column (only the values at the frame's column names matter).
  \<open>df[c] = values\<close> overwrites column \<open>c\<close> when the frame has it and appends it otherwise;
  wherever the source assigns a column, the list has one value for each row.
\<close>

record dataframe =
  columns :: "string list"
  rows :: "(string \<Rightarrow> pyval) list"

text \<open>
  The values that pandas stores when a list is assigned to a column. A list that holds a
  float and no string becomes a float64 column, in which \<open>None\<close> is stored as NaN; any
  other list is stored as it is.
\<close>

fun is_float :: "pyval \<Rightarrow> bool" where
  "is_float (PNum x) = True"
| "is_float PNaN = True"
| "is_float v = False"

fun is_str :: "pyval \<Rightarrow> bool" where
  "is_str (PStr s) = True"
| "is_str v = False"

definition float_column :: "pyval list \<Rightarrow> bool" where
  "float_column vals = (list_ex is_float vals \<and> \<not> list_ex is_str vals)"

definition store :: "bool \<Rightarrow> pyval \<Rightarrow> pyval" where
  "store as_float v = (if as_float \<and> v = PNone then PNaN else v)"

definition column_values :: "pyval list \<Rightarrow> pyval list" where
  "column_values vals = map (store (float_column vals)) vals"

definition set_column :: "string \<Rightarrow> pyval list \<Rightarrow> dataframe \<Rightarrow> dataframe" where
  "set_column c vals df =
     \<lparr>columns = (if c \<in> set (columns df) then columns df else columns df @ [c]),
      rows = map (\<lambda>(r, v). r(c := v)) (zip (rows df) (column_values vals))\<rparr>"

text \<open>\<open>df.dropna(subset=cs)\<close>: the rows in which none of the columns \<open>cs\<close> is missing.\<close>

definition dropna :: "string list \<Rightarrow> dataframe \<Rightarrow> dataframe" where
  "dropna cs df =
     \<lparr>columns = columns df,
      rows = filter (\<lambda>r. \<forall>c \<in> set cs. \<not> isna (r c)) (rows df)\<rparr>"

text \<open>The pair of cells stored for a lookup result: the coordinate, or \<open>(None, None)\<close>.\<close>

definition coord_cells :: "coord option \<Rightarrow> pyval \<times> pyval" where
  "coord_cells coords = (case coords of Some (la, lo) \<Rightarrow> (PNum la, PNum lo) | None \<Rightarrow> (PNone, PNone))"

text \<open>The loop of \<open>geocode_dataframe\<close> over \<open>df[postcode_column]\<close>. A coordinate is a
  non-empty tuple, so \<open>if coords:\<close> is the test for \<open>None\<close>. An exception of a lookup
  leaves the loop.\<close>

fun geocode_loop :: "postcode_dict \<Rightarrow> pyval list \<Rightarrow> py_error + (pyval \<times> pyval) list" where
  "geocode_loop d [] = Inr []"
| "geocode_loop d (p # ps) =
     (case get_coordinates d p of
        Inl e \<Rightarrow> Inl e
      | Inr coords \<Rightarrow>
          (case geocode_loop d ps of
             Inl e \<Rightarrow> Inl e
           | Inr coords_list \<Rightarrow> Inr (coord_cells coords # coords_list)))"

text \<open>
  \<open>UKPostcodeDataset.geocode_dataframe\<close>. An empty dictionary returns the frame as it
  is. \<open>df[postcode_column]\<close> raises \<open>KeyError\<close> when the frame has no such column. The
  final \<open>print\<close> divides by \<open>len(df)\<close> before the function returns.
\<close>

definition geocode_dataframe :: "postcode_dict \<Rightarrow> dataframe \<Rightarrow> string \<Rightarrow> py_error + dataframe" where
  "geocode_dataframe d df postcode_column =
     (if d = Map.empty then Inr df
      else if postcode_column \<notin> set (columns df) then Inl KeyError
      else case geocode_loop d (map (\<lambda>r. r postcode_column) (rows df)) of
        Inl e \<Rightarrow> Inl e
      | Inr coords_list \<Rightarrow>
          (let df' = set_column ''lon'' (map snd coords_list)
                       (set_column ''lat'' (map fst coords_list) df)
           in if length (rows df') = 0 then Inl ZeroDivisionError else Inr df'))"

section \<open>The dashboard and load_data (dash_app.py, heatmap_generator.py)\<close>

text \<open>
  \<open>UKHousePriceDashboard\<close> and \<open>UKHousePriceHeatMap\<close> have the same \<open>__init__\<close>,
  \<open>get_coordinates\<close> and coordinate stage of \<open>load_data\<close>. Of the object only
  \<open>postcode_geocoder\<close> matters here: the loaded dictionary, or \<open>None\<close> after a failed load.
\<close>

record dashboard =
  postcode_geocoder :: "postcode_dict option"

definition dashboard_init :: "load_env \<Rightarrow> dashboard" where
  "dashboard_init env =
     (case load_postcode_data env False Map.empty of
        (ok, d) \<Rightarrow> \<lparr>postcode_geocoder = (if ok then Some d else None)\<rparr>)"

text \<open>The fixed fallback coordinate (Central London).\<close>

definition fallback :: coord where
  "fallback = (51.5074, - 0.1278)"

definition dashboard_get_coordinates :: "dashboard \<Rightarrow> pyval \<Rightarrow> py_error + coord option" where
  "dashboard_get_coordinates dash v =
     (case postcode_geocoder dash of
        Some d \<Rightarrow> get_coordinates d v
      | None \<Rightarrow> Inr (Some fallback))"

text \<open>The loop of \<open>load_data\<close> over the \<open>postcode\<close> column: the cells of \<open>lat\<close> and \<open>lon\<close>.\<close>

fun load_data_loop :: "dashboard \<Rightarrow> pyval list \<Rightarrow> py_error + (pyval \<times> pyval) list" where
  "load_data_loop dash [] = Inr []"
| "load_data_loop dash (p # ps) =
     (case dashboard_get_coordinates dash p of
        Inl e \<Rightarrow> Inl e
      | Inr coords \<Rightarrow>
          (case load_data_loop dash ps of
             Inl e \<Rightarrow> Inl e
           | Inr coords_list \<Rightarrow>
               Inr ((if coords \<noteq> None \<and> coords \<noteq> Some fallback then coord_cells coords
                     else (PNone, PNone)) # coords_list)))"

text \<open>
  The second half of \<open>load_data\<close>, from the concatenated frame on: look every postcode
  up, store \<open>lat\<close> and \<open>lon\<close>, drop the rows without coordinates.
\<close>

definition load_data_coordinates :: "dashboard \<Rightarrow> dataframe \<Rightarrow> py_error + dataframe" where
  "load_data_coordinates dash df =
     (if ''postcode'' \<notin> set (columns df) then Inl KeyError
      else case load_data_loop dash (map (\<lambda>r. r ''postcode'') (rows df)) of
        Inl e \<Rightarrow> Inl e
      | Inr coords_list \<Rightarrow>
          Inr (dropna [''lat'', ''lon'']
                (set_column ''lon'' (map snd coords_list)
                  (set_column ''lat'' (map fst coords_list) df))))"

text \<open>The cells that the two loops store for a postcode whose lookup returns.\<close>

definition kept_cells :: "dashboard \<Rightarrow> pyval \<Rightarrow> pyval \<times> pyval" where
  "kept_cells dash p =
     (case dashboard_get_coordinates dash p of
        Inr (Some c) \<Rightarrow> if c = fallback then (PNone, PNone) else (PNum (fst c), PNum (snd c))
      | _ \<Rightarrow> (PNone, PNone))"

definition found_cells :: "postcode_dict \<Rightarrow> pyval \<Rightarrow> pyval \<times> pyval" where
  "found_cells d p =
     (case get_coordinates d p of
        Inr (Some c) \<Rightarrow> (PNum (fst c), PNum (snd c))
      | _ \<Rightarrow> (PNone, PNone))"

text \<open>Examples: an environment in which the download fails, a dictionary with one
  postcode at exactly the fallback coordinate, and two frames.\<close>

definition failed_download_env :: load_env where
  "failed_download_env = \<lparr>cache = BadCache, local_csv = None, download = None, cache_writable = True\<rparr>"

definition example_dict :: postcode_dict where
  "example_dict = [''N2 9QL'' \<mapsto> (51.59, - 0.17), ''EC1A 1BB'' \<mapsto> (51.5074, - 0.1278)]"

definition example_frame :: dataframe where
  "example_frame =
     \<lparr>columns = [''postcode'', ''priceper''],
      rows = [(\<lambda>c. PNaN)(''postcode'' := PStr ''n2 9ql'', ''priceper'' := PNum 3000),
              (\<lambda>c. PNaN)(''postcode'' := PStr ''EC1A1BB'', ''priceper'' := PNum 9000),
              (\<lambda>c. PNaN)(''postcode'' := PStr ''ZZ9 9ZZ'', ''priceper'' := PNum 4000)]\<rparr>"

definition example_located_frame :: dataframe where
  "example_located_frame =
     \<lparr>columns = [''postcode'', ''lat''],
      rows = [(\<lambda>c. PNaN)(''postcode'' := PStr ''ZZ9 9ZZ'', ''lat'' := PNum 50)]\<rparr>"

definition example_dashboard :: dashboard where
  "example_dashboard = \<lparr>postcode_geocoder = Some example_dict\<rparr>"

section \<open>Properties of the lookup\<close>

lemma try_variants_None: "try_variants d vs = None \<longleftrightarrow> (\<forall>v \<in> set vs. d v = None)"
  by (induction vs) (auto split: option.splits)

lemma filter_dropWhile_compl:
  "(\<And>x. x \<in> set xs \<Longrightarrow> Q x \<Longrightarrow> \<not> P x) \<Longrightarrow> filter P (dropWhile Q xs) = filter P xs"
  by (induction xs) auto

lemma remove_spaces_strip:
  assumes "\<forall>c \<in> set s. is_space c \<longrightarrow> c = CHR '' ''"
  shows "remove_spaces (strip s) = remove_spaces s"
proof -
  have a: "filter (\<lambda>c. c \<noteq> CHR '' '') (dropWhile is_space s) = filter (\<lambda>c. c \<noteq> CHR '' '') s"
    using assms by (intro filter_dropWhile_compl) auto
  have "\<forall>c \<in> set (rev (dropWhile is_space s)). is_space c \<longrightarrow> c = CHR '' ''"
    using assms by (auto dest: set_dropWhileD)
  then have b: "filter (\<lambda>c. c \<noteq> CHR '' '') (dropWhile is_space (rev (dropWhile is_space s)))
      = filter (\<lambda>c. c \<noteq> CHR '' '') (rev (dropWhile is_space s))"
    by (intro filter_dropWhile_compl) auto
  show ?thesis
    unfolding remove_spaces_def strip_def
    by (simp add: b a flip: rev_filter)
qed

lemma is_space_upper_char: "is_space (upper_char c) = is_space c"
  by (auto simp: upper_char_def is_space_def)

lemma upper_strip: "upper (strip s) = strip (upper s)"
  unfolding upper_def strip_def
  by (simp add: dropWhile_map rev_map comp_def is_space_upper_char)

lemma clean_postcode_format:
  assumes ns: "\<forall>ch \<in> set core. \<not> is_space ch"
    and f: "f \<in> set (spacing_formats core)"
  shows "remove_spaces f = core"
proof -
  have sp: "CHR '' '' \<notin> set core"
    using ns by (auto simp: is_space_def)
  then have id: "filter (\<lambda>c. c \<noteq> CHR '' '') core = core"
    by (intro filter_True) auto
  have "filter (\<lambda>c. c \<noteq> CHR '' '') (take n core) @ filter (\<lambda>c. c \<noteq> CHR '' '') (drop n core) = core" for n
    using id by (metis append_take_drop_id filter_append)
  then show ?thesis
    using f id
    by (auto simp: spacing_formats_def space_variants_def remove_spaces_def
          slice_to_minus_def slice_from_minus_def)
qed

lemma format_spaces:
  assumes ns: "\<forall>ch \<in> set core. \<not> is_space ch"
    and f: "f \<in> set (spacing_formats core)"
  shows "\<forall>c \<in> set f. is_space c \<longrightarrow> c = CHR '' ''"
  using assms
  by (auto simp: spacing_formats_def space_variants_def slice_to_minus_def
        slice_from_minus_def dest!: in_set_takeD in_set_dropD)

lemma upper_format:
  assumes up: "upper core = core"
    and f: "f \<in> set (spacing_formats core)"
  shows "upper f = f"
proof -
  have "map upper_char (take n core) = take n core" "map upper_char (drop n core) = drop n core" for n
    using up by (simp_all add: upper_def flip: take_map drop_map)
  moreover have "upper_char (CHR '' '') = CHR '' ''"
    by (simp add: upper_char_def)
  ultimately show ?thesis
    using f up
    by (auto simp: spacing_formats_def space_variants_def slice_to_minus_def
          slice_from_minus_def upper_def)
qed

lemma clean_postcode_input:
  assumes ns: "\<forall>ch \<in> set core. \<not> is_space ch"
    and p: "upper (strip p) \<in> set (spacing_formats core)"
  shows "clean_postcode p = core"
  using clean_postcode_format [OF ns p] by (simp add: clean_postcode_def)

lemma clean_postcode_key:
  assumes ns: "\<forall>ch \<in> set core. \<not> is_space ch"
    and up: "upper core = core"
    and k: "k \<in> set (spacing_formats core)"
  shows "clean_postcode k = core"
proof -
  have "clean_postcode k = remove_spaces (strip (upper k))"
    by (simp add: clean_postcode_def upper_strip)
  also have "\<dots> = remove_spaces (strip k)"
    by (simp add: upper_format [OF up k])
  also have "\<dots> = remove_spaces k"
    by (rule remove_spaces_strip) (rule format_spaces [OF ns k])
  also have "\<dots> = core"
    by (rule clean_postcode_format [OF ns k])
  finally show ?thesis .
qed

lemma format_nonempty: "core \<noteq> [] \<Longrightarrow> f \<in> set (spacing_formats core) \<Longrightarrow> f \<noteq> []"
  by (auto simp: spacing_formats_def space_variants_def)

lemma strip_Nil: "strip [] = []"
  by (simp add: strip_def)

lemma get_coordinates_clean:
  "s \<noteq> [] \<Longrightarrow> get_coordinates d (PStr s) =
     Inr (case d (clean_postcode s) of Some c \<Rightarrow> Some c
          | None \<Rightarrow> if 5 \<le> length (clean_postcode s)
                    then try_variants d (space_variants (clean_postcode s)) else None)"
  by (simp add: get_coordinates_def Let_def split: option.splits)

text \<open>
  Claim C1, as amended. The lookup of a string follows the specified steps (normalise,
  exact match, space three from the end, space two from the end, not found) except in
  two guarded cases, where it returns not-found without looking further: the empty
  input, and a normalised form of fewer than five characters that is not itself a key.
\<close>

theorem get_coordinates_steps:
  "get_coordinates d (PStr s) =
     Inr (if s = [] \<or> (d (clean_postcode s) = None \<and> length (clean_postcode s) < 5)
          then None else get_coordinates_spec d s)"
  by (auto simp: get_coordinates_def get_coordinates_spec_def space_variants_def Let_def
           split: option.splits)

theorem get_coordinates_steps_witness:
  "get_coordinates [''N2 9QL'' \<mapsto> (51.59, - 0.17)] (PStr '' n29ql '') = Inr (Some (51.59, - 0.17))
   \<and> get_coordinates_spec [''N2 9QL'' \<mapsto> (51.59, - 0.17)] '' n29ql '' = Some (51.59, - 0.17)"
  using get_coordinates_steps [of "[''N2 9QL'' \<mapsto> (51.59, - 0.17)]" "'' n29ql ''"]
  by (simp add: get_coordinates_spec_def clean_postcode_def remove_spaces_def upper_def
        upper_char_def strip_def is_space_def slice_to_minus_def slice_from_minus_def)

text \<open>
  Claim C1 as stated fails: with the key \<open>A 1AA\<close> in the mapping, the specified steps
  find the input \<open>A1AA\<close> through the variant with a space three characters from the end,
  while the code returns not-found, because the normalised form has only four characters.
\<close>

theorem get_coordinates_steps_counterexample:
  "get_coordinates_spec [''A 1AA'' \<mapsto> (1, 2)] ''A1AA'' = Some (1, 2)
   \<and> get_coordinates [''A 1AA'' \<mapsto> (1, 2)] (PStr ''A1AA'') = Inr None"
  by (simp add: get_coordinates_def get_coordinates_spec_def clean_postcode_def
        remove_spaces_def upper_def upper_char_def strip_def is_space_def
        slice_to_minus_def slice_from_minus_def)

text \<open>
  Claim C2, as amended. Let \<open>core\<close> be a non-empty, upper-case postcode without
  whitespace, and let the mapping hold an entry whose key is \<open>core\<close> in a supported
  spacing format: \<open>core\<close> itself, or, when \<open>core\<close> has at least five characters, \<open>core\<close>
  with a space three or two characters from the end. Then every input that differs from
  the key only in letter case, surrounding whitespace and the choice among the three
  spacing formats is found, and returns the same coordinate as the lookup of the key
  itself; that coordinate is the entry's own whenever no other spacing format of
  \<open>core\<close> is a key of the mapping.
\<close>

theorem lookup_format_invariant:
  assumes entry: "d k = Some c"
    and ne: "core \<noteq> []"
    and ns: "\<forall>ch \<in> set core. \<not> is_space ch"
    and up: "upper core = core"
    and fmt: "k = core \<or> (5 \<le> length core \<and> k \<in> set (space_variants core))"
    and inp: "upper (strip p) \<in> set (spacing_formats core)"
  shows "get_coordinates d (PStr p) = get_coordinates d (PStr k)
    \<and> (\<exists>c'. get_coordinates d (PStr p) = Inr (Some c'))
    \<and> ((\<forall>k' \<in> set (spacing_formats core). k' \<noteq> k \<longrightarrow> d k' = None)
        \<longrightarrow> get_coordinates d (PStr p) = Inr (Some c))"
proof -
  have kf: "k \<in> set (spacing_formats core)"
    using fmt by (auto simp: spacing_formats_def)
  have pne: "p \<noteq> []"
    using format_nonempty [OF ne inp] by (auto simp: strip_Nil upper_def)
  have kne: "k \<noteq> []"
    using format_nonempty [OF ne kf] .
  have cp: "clean_postcode p = core"
    by (rule clean_postcode_input [OF ns inp])
  have ck: "clean_postcode k = core"
    by (rule clean_postcode_key [OF ns up kf])
  have same: "get_coordinates d (PStr p) = get_coordinates d (PStr k)"
    by (simp only: get_coordinates_clean [OF pne] get_coordinates_clean [OF kne] cp ck)
  have found: "\<exists>c'. get_coordinates d (PStr p) = Inr (Some c')"
  proof (cases "d core")
    case (Some c')
    then show ?thesis by (simp add: get_coordinates_clean pne cp)
  next
    case None
    with entry fmt have long: "5 \<le> length core" and kv: "k \<in> set (space_variants core)"
      by auto
    from kv entry have "try_variants d (space_variants core) \<noteq> None"
      unfolding try_variants_None by (cases c) fastforce
    with None long show ?thesis
      by (auto simp: get_coordinates_clean pne cp)
  qed
  have only: "get_coordinates d (PStr p) = Inr (Some c)"
    if h: "\<forall>k' \<in> set (spacing_formats core). k' \<noteq> k \<longrightarrow> d k' = None"
  proof (cases "k = core")
    case True
    with entry show ?thesis by (simp add: get_coordinates_clean pne cp)
  next
    case False
    with fmt have long: "5 \<le> length core" and kv: "k \<in> set (space_variants core)"
      by auto
    from False h have dn: "d core = None"
      by (simp add: spacing_formats_def)
    have "try_variants d (space_variants core) = Some c"
      using kv h entry
      by (auto simp: space_variants_def spacing_formats_def split: option.splits)
    with dn long show ?thesis
      by (simp add: get_coordinates_clean pne cp)
  qed
  from same found only show ?thesis by blast
qed

theorem lookup_format_invariant_witness:
  "get_coordinates [''N2 9QL'' \<mapsto> (51.59, - 0.17)] (PStr '' n29 ql '')
     = get_coordinates [''N2 9QL'' \<mapsto> (51.59, - 0.17)] (PStr ''N2 9QL'')
   \<and> get_coordinates [''N2 9QL'' \<mapsto> (51.59, - 0.17)] (PStr '' n29 ql '')
     = Inr (Some (51.59, - 0.17))"
proof -
  let ?d = "[''N2 9QL'' \<mapsto> (51.59 :: real, - 0.17 :: real)]"
  have entry: "?d ''N2 9QL'' = Some (51.59, - 0.17)"
    by simp
  have ne: "''N29QL'' \<noteq> []"
    by simp
  have ns: "\<forall>ch \<in> set ''N29QL''. \<not> is_space ch"
    by (simp add: is_space_def)
  have up: "upper ''N29QL'' = ''N29QL''"
    by (simp add: upper_def upper_char_def)
  have fmt: "''N2 9QL'' = ''N29QL'' \<or> (5 \<le> length ''N29QL'' \<and> ''N2 9QL'' \<in> set (space_variants ''N29QL''))"
    by (simp add: space_variants_def slice_to_minus_def slice_from_minus_def)
  have inp: "upper (strip '' n29 ql '') \<in> set (spacing_formats ''N29QL'')"
    by (simp add: spacing_formats_def space_variants_def slice_to_minus_def
          slice_from_minus_def upper_def upper_char_def strip_def is_space_def)
  have only: "\<forall>k' \<in> set (spacing_formats ''N29QL''). k' \<noteq> ''N2 9QL'' \<longrightarrow> ?d k' = None"
    by (simp add: spacing_formats_def space_variants_def slice_to_minus_def
          slice_from_minus_def)
  from lookup_format_invariant
      [of ?d "''N2 9QL''" "(51.59, - 0.17)" "''N29QL''" "'' n29 ql ''", OF entry ne ns up fmt inp]
    only
  show ?thesis by blast
qed

text \<open>
  Claim C2 as stated fails. An entry whose key has a space three characters from the end
  but only four other characters is not found, not even by an input identical to the
  key; and an entry with the empty key is found by the input of one space but not by
  the empty input.
\<close>

theorem lookup_format_invariant_counterexample:
  "[''A 1AA'' \<mapsto> (1 :: real, 2 :: real)] ''A 1AA'' = Some (1, 2)
   \<and> ''A 1AA'' \<in> set (spacing_formats ''A1AA'')
   \<and> get_coordinates [''A 1AA'' \<mapsto> (1, 2)] (PStr ''A 1AA'') = Inr None
   \<and> get_coordinates [[] \<mapsto> (1, 2)] (PStr '' '') = Inr (Some (1, 2))
   \<and> get_coordinates [[] \<mapsto> (1, 2)] (PStr []) = Inr None"
  by (simp add: get_coordinates_def clean_postcode_def remove_spaces_def upper_def
        upper_char_def strip_def is_space_def spacing_formats_def space_variants_def
        slice_to_minus_def slice_from_minus_def)

text \<open>
  Claim C3. A string whose normalised form and both of its spacing variants are absent
  from the mapping is looked up as not-found; so are the empty string and \<open>None\<close>; and
  the lookup of a string never raises, whatever the mapping holds.
\<close>

theorem get_coordinates_absent:
  "(d (clean_postcode s) = None \<and> (\<forall>v \<in> set (space_variants (clean_postcode s)). d v = None)
      \<longrightarrow> get_coordinates d (PStr s) = Inr None)
   \<and> get_coordinates d (PStr []) = Inr None
   \<and> get_coordinates d PNone = Inr None
   \<and> (\<exists>r. get_coordinates d (PStr s) = Inr r)"
proof -
  have "try_variants d vs = None" if "\<forall>v \<in> set vs. d v = None" for vs
    using that by (simp add: try_variants_None)
  then show ?thesis
    by (auto simp: get_coordinates_def Let_def split: option.splits)
qed

theorem get_coordinates_absent_witness:
  "get_coordinates [''N2 9QL'' \<mapsto> (51.59, - 0.17)] (PStr ''zz9 9zz'') = Inr None"
proof -
  let ?d = "[''N2 9QL'' \<mapsto> (51.59 :: real, - 0.17 :: real)]"
  have h: "?d (clean_postcode ''zz9 9zz'') = None
      \<and> (\<forall>v \<in> set (space_variants (clean_postcode ''zz9 9zz'')). ?d v = None)"
    by (simp add: clean_postcode_def remove_spaces_def upper_def upper_char_def strip_def
          is_space_def space_variants_def slice_to_minus_def slice_from_minus_def)
  from get_coordinates_absent [of ?d "''zz9 9zz''"] h
  show ?thesis by blast
qed

section \<open>Properties of the district key\<close>

lemma AZ_not_digit: "is_AZ c \<Longrightarrow> \<not> is_digit c"
  by (auto simp: is_AZ_def is_digit_def)

lemma re_match_district_pattern: "re_match_district t = district_pattern t"
proof (cases t)
  case Nil
  then show ?thesis
    by (simp add: re_match_district_def district_matches_def district_pattern_def rep12_def)
next
  case (Cons a t1)
  show ?thesis
  proof (cases "is_AZ a")
    case False
    with Cons show ?thesis
      by (simp add: re_match_district_def district_matches_def district_pattern_def rep12_def)
  next
    case True
    show ?thesis
      using Cons True
      by (auto simp: re_match_district_def district_matches_def district_pattern_def rep12_def opt1_def
          Let_def AZ_not_digit split: list.splits)
  qed
qed

text \<open>
  Claim C7, as amended. The grouping key of a record is taken from the first
  whitespace-separated token of the stripped, upper-cased postcode: one or two leading
  letters, then one or two digits, then one more letter if there is one (\<open>SW1A\<close> for
  \<open>SW1A 1AA\<close>, \<open>N2\<close> for \<open>N2 9QL\<close>). A record whose postcode is missing (\<open>None\<close>, NaN)
  or empty, or whose first token does not start that way, has no district.
\<close>

theorem extract_postcode_district_key:
  "extract_postcode_district PNone = None
   \<and> extract_postcode_district PNaN = None
   \<and> extract_postcode_district (PStr []) = None
   \<and> extract_postcode_district (PStr s) =
       (case split (upper (strip s)) of [] \<Rightarrow> None | t # _ \<Rightarrow> district_pattern t)"
proof -
  have "split (upper (strip [])) = []"
    by (simp add: split_def upper_def strip_def)
  then show ?thesis
    by (simp add: extract_postcode_district_def re_match_district_pattern
          split: list.splits)
qed

theorem extract_postcode_district_key_witness:
  "extract_postcode_district (PStr '' n2 9ql'') = Some ''N2''"
proof -
  have "split (upper (strip '' n2 9ql'')) = [''N2'', ''9QL'']"
    by (simp add: split_def upper_def upper_char_def strip_def is_space_def)
  moreover have "district_pattern ''N2'' = Some ''N2''"
    by (simp add: district_pattern_def is_AZ_def is_digit_def)
  ultimately show ?thesis
    using extract_postcode_district_key [of "'' n2 9ql''"] by simp
qed

text \<open>
  Claim C7 as stated fails on its own example: the leading letters plus the first digit
  group of \<open>SW1A 1AA\<close> are \<open>SW1\<close>, and the code's key is \<open>SW1A\<close>, because the pattern
  takes one more letter after the digits.
\<close>

theorem extract_postcode_district_counterexample:
  "district_prefix_spec ''SW1A 1AA'' = Some ''SW1''
   \<and> extract_postcode_district (PStr ''SW1A 1AA'') = Some ''SW1A''"
  by (simp add: district_prefix_spec_def extract_postcode_district_def split_def upper_def
        upper_char_def strip_def is_space_def re_match_district_def district_matches_def
        rep12_def opt1_def is_AZ_def is_digit_def)

section \<open>Properties of the aggregation\<close>

lemma members_in_add:
  "members_in (add_to_group k r gs) k' = members_in gs k' @ (if k = k' then [r] else [])"
  by (induction k r gs rule: add_to_group.induct) (auto simp: members_in_def)

lemma members_in_fold:
  "members_in (fold (group_step key) df gs) k = members_in gs k @ filter (\<lambda>r. key r = Some k) df"
proof (induction df arbitrary: gs)
  case Nil
  then show ?case by simp
next
  case (Cons r df)
  have "members_in (group_step key r gs) k
      = members_in gs k @ (if key r = Some k then [r] else [])"
    by (cases "key r") (simp_all add: group_step_def members_in_add)
  then show ?case
    by (simp add: Cons.IH)
qed

lemma keys_add_to_group:
  "map fst (add_to_group k r gs) = (if k \<in> set (map fst gs) then map fst gs else map fst gs @ [k])"
  by (induction k r gs rule: add_to_group.induct) auto

lemma distinct_add_to_group:
  "distinct (map fst gs) \<Longrightarrow> distinct (map fst (add_to_group k r gs))"
  by (simp add: keys_add_to_group)

lemma distinct_fold_groups:
  "distinct (map fst gs) \<Longrightarrow> distinct (map fst (fold (group_step key) df gs))"
proof (induction df arbitrary: gs)
  case Nil
  then show ?case by simp
next
  case (Cons r df)
  from Cons.prems have "distinct (map fst (group_step key r gs))"
    by (cases "key r") (simp_all add: group_step_def distinct_add_to_group)
  then show ?case
    by (simp add: Cons.IH)
qed

lemma groupby_members:
  assumes "(k, r0, rs) \<in> set (groupby key df)"
  shows "r0 # rs = filter (\<lambda>r. key r = Some k) df"
proof -
  let ?gs = "fold (group_step key) df []"
  from assms have "(k, r0, rs) \<in> set ?gs"
    by (simp add: groupby_def)
  moreover have "distinct (map fst ?gs)"
    by (rule distinct_fold_groups) simp
  ultimately have "map_of ?gs k = Some (r0, rs)"
    by (rule map_of_is_SomeI [rotated])
  then have "members_in ?gs k = r0 # rs"
    by (simp add: members_in_def)
  moreover have "members_in ?gs k = members_in [] k @ filter (\<lambda>r. key r = Some k) df"
    by (rule members_in_fold)
  moreover have "members_in [] k = ([] :: 'a list)"
    by (simp add: members_in_def)
  ultimately show ?thesis
    by simp
qed

lemma groupby_complete:
  assumes "filter (\<lambda>r. key r = Some k) df = r0 # rs"
  shows "(k, r0, rs) \<in> set (groupby key df)"
proof -
  let ?gs = "fold (group_step key) df []"
  have "members_in ?gs k = members_in [] k @ filter (\<lambda>r. key r = Some k) df"
    by (rule members_in_fold)
  moreover have "members_in [] k = ([] :: 'a list)"
    by (simp add: members_in_def)
  ultimately have "members_in ?gs k = r0 # rs"
    using assms by simp
  then have "map_of ?gs k = Some (r0, rs)"
    by (auto simp: members_in_def split: option.splits)
  then have "(k, r0, rs) \<in> set ?gs"
    by (rule map_of_SomeD)
  then show ?thesis
    by (simp add: groupby_def)
qed

lemma aggregate_districts_iff:
  "a \<in> set (aggregate_districts fmean df) \<longleftrightarrow>
     (\<exists>k r0 rs. district_members df k = r0 # rs \<and> 3 \<le> length (r0 # rs)
        \<and> a = aggregate_group fmean (k, r0, rs))"
proof
  assume "a \<in> set (aggregate_districts fmean df)"
  then obtain g where g: "g \<in> set (groupby (\<lambda>r. extract_postcode_district (postcode r)) df)"
    and a: "a = aggregate_group fmean g" and c: "3 \<le> property_count a"
    by (auto simp: aggregate_districts_def)
  obtain k r0 rs where gk: "g = (k, r0, rs)"
    by (cases g)
  from groupby_members [OF g [unfolded gk]]
  have "district_members df k = r0 # rs"
    by (simp add: district_members_def)
  moreover from c have "3 \<le> length (r0 # rs)"
    by (simp add: a gk aggregate_group_def)
  ultimately show "\<exists>k r0 rs. district_members df k = r0 # rs \<and> 3 \<le> length (r0 # rs)
      \<and> a = aggregate_group fmean (k, r0, rs)"
    using a gk by blast
next
  assume "\<exists>k r0 rs. district_members df k = r0 # rs \<and> 3 \<le> length (r0 # rs)
      \<and> a = aggregate_group fmean (k, r0, rs)"
  then obtain k r0 rs where m: "district_members df k = r0 # rs"
    and c: "3 \<le> length (r0 # rs)" and a: "a = aggregate_group fmean (k, r0, rs)"
    by blast
  from m have "(k, r0, rs) \<in> set (groupby (\<lambda>r. extract_postcode_district (postcode r)) df)"
    by (intro groupby_complete) (simp add: district_members_def)
  moreover from c have "3 \<le> property_count a"
    by (simp add: a aggregate_group_def)
  ultimately show "a \<in> set (aggregate_districts fmean df)"
    unfolding aggregate_districts_def a by force
qed

lemma aggregate_districts_group:
  assumes "a \<in> set (aggregate_districts fmean df)"
  obtains k r0 rs where "postcode_district a = k"
    and "district_members df k = r0 # rs"
    and "a = aggregate_group fmean (k, r0, rs)"
    and "3 \<le> length (r0 # rs)"
proof -
  from assms obtain k r0 rs where m: "district_members df k = r0 # rs"
    and c: "3 \<le> length (r0 # rs)" and a: "a = aggregate_group fmean (k, r0, rs)"
    unfolding aggregate_districts_iff by blast
  have "postcode_district a = k"
    by (simp add: a aggregate_group_def)
  with that [of k r0 rs] m c a show ?thesis
    by blast
qed

lemma aggregate_districts_emits:
  assumes "3 \<le> length (district_members df k)"
  obtains r0 rs where "district_members df k = r0 # rs"
    and "aggregate_group fmean (k, r0, rs) \<in> set (aggregate_districts fmean df)"
proof -
  from assms obtain r0 rs where m: "district_members df k = r0 # rs"
    by (cases "district_members df k") auto
  with assms have "aggregate_group fmean (k, r0, rs) \<in> set (aggregate_districts fmean df)"
    unfolding aggregate_districts_iff by auto
  with that m show ?thesis
    by blast
qed

lemma example_members:
  "district_members example_records ''N2'' =
     [example_records ! 0, example_records ! 2, example_records ! 3]"
  by (simp add: district_members_def example_records_def extract_postcode_district_def
        split_def upper_def upper_char_def strip_def is_space_def re_match_district_def
        district_matches_def rep12_def opt1_def is_AZ_def is_digit_def)

lemma thirds_members: "district_members thirds_records ''N2'' = thirds_records"
  by (simp add: district_members_def thirds_records_def extract_postcode_district_def
        split_def upper_def upper_char_def strip_def is_space_def re_match_district_def
        district_matches_def rep12_def opt1_def is_AZ_def is_digit_def)

lemma aggregate_example: "aggregate_districts fmean example_records = [example_aggregate fmean]"
  by code_simp

lemma three_dvd_pow2: "\<not> (3::int) dvd p \<Longrightarrow> \<not> 3 dvd p * 2 ^ n"
proof (induction n)
  case 0
  then show ?case by simp
next
  case (Suc n)
  have step: "3 dvd x * 2 \<Longrightarrow> 3 dvd x" for x :: int
    by presburger
  have eq: "p * 2 ^ Suc n = (p * 2 ^ n) * 2"
    by simp
  show ?case
  proof
    assume "3 dvd p * 2 ^ Suc n"
    then have "3 dvd (p * 2 ^ n) * 2"
      by (simp only: eq)
    then have "3 dvd p * 2 ^ n"
      by (rule step)
    with Suc show False
      by blast
  qed
qed

lemma dval_not_third:
  assumes "\<not> (3::int) dvd p"
  shows "dval x \<noteq> of_int p / 3"
proof (cases x)
  case (Double m e)
  show ?thesis
  proof (cases "0 \<le> e")
    case True
    have "of_int m * 2 ^ nat e \<noteq> (of_int p / 3 :: real)"
    proof
      assume "of_int m * 2 ^ nat e = (of_int p / 3 :: real)"
      then have "(of_int (3 * (m * 2 ^ nat e)) :: real) = of_int p"
        by simp
      then have "3 * (m * 2 ^ nat e) = p"
        by (simp only: of_int_eq_iff)
      then have "3 dvd p"
        by (rule dvdI [OF sym])
      with assms show False
        by blast
    qed
    with True Double show ?thesis by simp
  next
    case False
    have "of_int m / 2 ^ nat (- e) \<noteq> (of_int p / 3 :: real)"
    proof
      assume h: "of_int m / 2 ^ nat (- e) = (of_int p / 3 :: real)"
      have "(of_int m / 2 ^ nat (- e) = (of_int p / 3 :: real))
          = (of_int m * 3 = (of_int p * 2 ^ nat (- e) :: real))"
        by (rule frac_eq_eq) simp_all
      with h have "of_int m * 3 = (of_int p * 2 ^ nat (- e) :: real)"
        by blast
      then have "(of_int (3 * m) :: real) = of_int (p * 2 ^ nat (- e))"
        by simp
      then have "3 * m = p * 2 ^ nat (- e)"
        by (simp only: of_int_eq_iff)
      then have "3 dvd p * 2 ^ nat (- e)"
        by (rule dvdI [OF sym])
      with three_dvd_pow2 [OF assms] show False
        by blast
    qed
    with False Double show ?thesis by simp
  qed
qed

lemma thirds_exact_means:
  "exact_mean (map priceper thirds_records) = of_int 4 / 3"
  "exact_mean (map lat thirds_records) = of_int 154 / 3"
  "exact_mean (map lon thirds_records) = of_int (- 1) / 3"
  by (simp_all add: exact_mean_def thirds_records_def)

text \<open>
  Claim C4. Every aggregate that the aggregation emits has a \<open>property_count\<close> of at
  least 3, and that count is the number of records of the frame in its district.
\<close>

theorem aggregate_min_samples:
  assumes "a \<in> set (aggregate_districts fmean df)"
  shows "3 \<le> property_count a
    \<and> property_count a = length (district_members df (postcode_district a))"
  using assms by (rule aggregate_districts_group) (simp add: aggregate_group_def)

theorem aggregate_min_samples_witness:
  "3 \<le> length (district_members example_records ''N2'')"
proof -
  have mem: "example_aggregate (\<lambda>xs. Double 0 0)
      \<in> set (aggregate_districts (\<lambda>xs. Double 0 0) example_records)"
    by (simp add: aggregate_example)
  from aggregate_min_samples [OF mem] show ?thesis
    by (simp add: example_aggregate_def)
qed

lemma example_values:
  "map priceper (district_members example_records ''N2'')
     = [Double 3000 0, Double 4000 0, Double 5000 0]"
  "map lat (district_members example_records ''N2'')
     = [Double 103 (- 1), Double 207 (- 2), Double 413 (- 3)]"
  "map lon (district_members example_records ''N2'')
     = [Double (- 1) (- 2), Double (- 1) (- 3), Double (- 3) (- 4)]"
  "length (district_members example_records ''N2'') = 3"
  "area (hd (district_members example_records ''N2'')) = ''Barnet''"
  unfolding example_members by (simp_all add: example_records_def)

lemma thirds_length: "length (district_members thirds_records ''N2'') = 3"
  unfolding thirds_members by (simp add: thirds_records_def)

text \<open>
  Claim C5, as amended. The \<open>avg_price\<close> of every emitted aggregate is the float64 mean
  that pandas computes from the \<open>priceper\<close> values of exactly the records of its
  district, in frame order; and every district with at least three records in the frame
  gets such an aggregate. (The float64 mean is the arithmetic mean up to rounding.)
\<close>

theorem aggregate_mean_price:
  "(\<forall>a \<in> set (aggregate_districts fmean df).
      avg_price a = fmean (map priceper (district_members df (postcode_district a))))
   \<and> (\<forall>k. 3 \<le> length (district_members df k) \<longrightarrow>
        (\<exists>a \<in> set (aggregate_districts fmean df).
           postcode_district a = k
           \<and> avg_price a = fmean (map priceper (district_members df k))))"
proof (intro conjI ballI allI impI)
  fix a
  assume "a \<in> set (aggregate_districts fmean df)"
  then show "avg_price a = fmean (map priceper (district_members df (postcode_district a)))"
    by (rule aggregate_districts_group) (simp add: aggregate_group_def)
next
  fix k
  assume "3 \<le> length (district_members df k)"
  then obtain r0 rs where m: "district_members df k = r0 # rs"
    and a: "aggregate_group fmean (k, r0, rs) \<in> set (aggregate_districts fmean df)"
    by (rule aggregate_districts_emits)
  show "\<exists>a \<in> set (aggregate_districts fmean df).
      postcode_district a = k \<and> avg_price a = fmean (map priceper (district_members df k))"
    by (rule bexI [OF _ a]) (simp add: aggregate_group_def m)
qed

theorem aggregate_mean_price_witness:
  "\<forall>fmean. \<exists>a. a \<in> set (aggregate_districts fmean example_records)
     \<and> postcode_district a = ''N2''
     \<and> avg_price a = fmean [Double 3000 0, Double 4000 0, Double 5000 0]"
proof
  fix fmean :: "double list \<Rightarrow> double"
  have three: "3 \<le> length (district_members example_records ''N2'')"
    by (simp add: example_values)
  from aggregate_mean_price [of fmean example_records] three
  obtain a where "a \<in> set (aggregate_districts fmean example_records)"
    and "postcode_district a = ''N2''"
    and "avg_price a = fmean (map priceper (district_members example_records ''N2''))"
    by blast
  then show "\<exists>a. a \<in> set (aggregate_districts fmean example_records)
     \<and> postcode_district a = ''N2''
     \<and> avg_price a = fmean [Double 3000 0, Double 4000 0, Double 5000 0]"
    by (auto simp only: example_values)
qed

text \<open>
  Claim C5 as stated fails. For three records of one district with the prices 1, 1 and
  2 an aggregate is emitted, the sum of the prices divided by their number is 4/3, and
  the \<open>avg_price\<close> of the aggregate is a float64, which 4/3 is not: whatever the mean
  rounds to, it is not the exact quotient.
\<close>

theorem aggregate_mean_price_counterexample:
  "\<forall>fmean. \<exists>a. a \<in> set (aggregate_districts fmean thirds_records)
     \<and> dval (avg_price a)
         \<noteq> exact_mean (map priceper (district_members thirds_records (postcode_district a)))"
proof
  fix fmean :: "double list \<Rightarrow> double"
  have "3 \<le> length (district_members thirds_records ''N2'')"
    by (simp add: thirds_length)
  then obtain r0 rs where
    a: "aggregate_group fmean (''N2'', r0, rs) \<in> set (aggregate_districts fmean thirds_records)"
    by (rule aggregate_districts_emits)
  define a0 where "a0 = aggregate_group fmean (''N2'', r0, rs)"
  have k: "postcode_district a0 = ''N2''"
    by (simp add: a0_def aggregate_group_def)
  have "dval (avg_price a0) \<noteq> of_int 4 / 3"
    by (rule dval_not_third) simp
  then have "dval (avg_price a0)
      \<noteq> exact_mean (map priceper (district_members thirds_records (postcode_district a0)))"
    by (simp add: k thirds_members thirds_exact_means)
  with a show "\<exists>a. a \<in> set (aggregate_districts fmean thirds_records)
     \<and> dval (avg_price a)
         \<noteq> exact_mean (map priceper (district_members thirds_records (postcode_district a)))"
    unfolding a0_def by blast
qed

text \<open>
  Claim C6, as amended. The centroid of every emitted aggregate is the float64 mean
  that pandas computes from the latitudes, and from the longitudes, of exactly the
  records of its district, in frame order, and its area label is the label of the first
  of these records; and every district with at least three records in the frame gets
  such an aggregate. (The float64 mean is the arithmetic mean up to rounding.)
\<close>

theorem aggregate_centroid_area:
  "(\<forall>a \<in> set (aggregate_districts fmean df).
      lat a = fmean (map lat (district_members df (postcode_district a)))
      \<and> lon a = fmean (map lon (district_members df (postcode_district a)))
      \<and> (\<exists>r rest. district_members df (postcode_district a) = r # rest \<and> area a = area r))
   \<and> (\<forall>k. 3 \<le> length (district_members df k) \<longrightarrow>
        (\<exists>a \<in> set (aggregate_districts fmean df).
           postcode_district a = k
           \<and> lat a = fmean (map lat (district_members df k))
           \<and> lon a = fmean (map lon (district_members df k))
           \<and> (\<exists>r rest. district_members df k = r # rest \<and> area a = area r)))"
proof (intro conjI ballI allI impI)
  fix a
  assume a: "a \<in> set (aggregate_districts fmean df)"
  from a show "lat a = fmean (map lat (district_members df (postcode_district a)))"
    by (rule aggregate_districts_group) (simp add: aggregate_group_def)
  from a show "lon a = fmean (map lon (district_members df (postcode_district a)))"
    by (rule aggregate_districts_group) (simp add: aggregate_group_def)
  from a show "\<exists>r rest. district_members df (postcode_district a) = r # rest \<and> area a = area r"
    by (rule aggregate_districts_group) (simp add: aggregate_group_def)
next
  fix k
  assume "3 \<le> length (district_members df k)"
  then obtain r0 rs where m: "district_members df k = r0 # rs"
    and a: "aggregate_group fmean (k, r0, rs) \<in> set (aggregate_districts fmean df)"
    by (rule aggregate_districts_emits)
  show "\<exists>a \<in> set (aggregate_districts fmean df).
      postcode_district a = k
      \<and> lat a = fmean (map lat (district_members df k))
      \<and> lon a = fmean (map lon (district_members df k))
      \<and> (\<exists>r rest. district_members df k = r # rest \<and> area a = area r)"
    by (rule bexI [OF _ a]) (simp add: aggregate_group_def m)
qed

theorem aggregate_centroid_area_witness:
  "\<forall>fmean. \<exists>a. a \<in> set (aggregate_districts fmean example_records)
     \<and> postcode_district a = ''N2''
     \<and> lat a = fmean [Double 103 (- 1), Double 207 (- 2), Double 413 (- 3)]
     \<and> lon a = fmean [Double (- 1) (- 2), Double (- 1) (- 3), Double (- 3) (- 4)]
     \<and> area a = ''Barnet''"
proof
  fix fmean :: "double list \<Rightarrow> double"
  have three: "3 \<le> length (district_members example_records ''N2'')"
    by (simp add: example_values)
  from aggregate_centroid_area [of fmean example_records] three
  obtain a r rest where mem: "a \<in> set (aggregate_districts fmean example_records)"
    and k: "postcode_district a = ''N2''"
    and la: "lat a = fmean (map lat (district_members example_records ''N2''))"
    and lo: "lon a = fmean (map lon (district_members example_records ''N2''))"
    and r: "district_members example_records ''N2'' = r # rest" and ar: "area a = area r"
    by blast
  from la have la': "lat a = fmean [Double 103 (- 1), Double 207 (- 2), Double 413 (- 3)]"
    by (simp only: example_values)
  from lo have lo': "lon a = fmean [Double (- 1) (- 2), Double (- 1) (- 3), Double (- 3) (- 4)]"
    by (simp only: example_values)
  from r example_values(5) have "area r = ''Barnet''"
    by simp
  with ar have ar': "area a = ''Barnet''"
    by simp
  from mem k la' lo' ar'
  show "\<exists>a. a \<in> set (aggregate_districts fmean example_records)
     \<and> postcode_district a = ''N2''
     \<and> lat a = fmean [Double 103 (- 1), Double 207 (- 2), Double 413 (- 3)]
     \<and> lon a = fmean [Double (- 1) (- 2), Double (- 1) (- 3), Double (- 3) (- 4)]
     \<and> area a = ''Barnet''"
    by blast
qed

text \<open>
  Claim C6 as stated fails. For three records of one district with the latitudes 51,
  51, 52 and the longitudes 0, 0, -1 an aggregate is emitted, the exact means are 154/3
  and -1/3, and the centroid's coordinates are float64 values, which these are not.
\<close>

theorem aggregate_centroid_area_counterexample:
  "\<forall>fmean. \<exists>a. a \<in> set (aggregate_districts fmean thirds_records)
     \<and> dval (lat a)
         \<noteq> exact_mean (map lat (district_members thirds_records (postcode_district a)))
     \<and> dval (lon a)
         \<noteq> exact_mean (map lon (district_members thirds_records (postcode_district a)))"
proof
  fix fmean :: "double list \<Rightarrow> double"
  have "3 \<le> length (district_members thirds_records ''N2'')"
    by (simp add: thirds_length)
  then obtain r0 rs where
    a: "aggregate_group fmean (''N2'', r0, rs) \<in> set (aggregate_districts fmean thirds_records)"
    by (rule aggregate_districts_emits)
  define a0 where "a0 = aggregate_group fmean (''N2'', r0, rs)"
  have k: "postcode_district a0 = ''N2''"
    by (simp add: a0_def aggregate_group_def)
  have "dval (lat a0) \<noteq> of_int 154 / 3"
    by (rule dval_not_third) simp
  then have la: "dval (lat a0)
      \<noteq> exact_mean (map lat (district_members thirds_records (postcode_district a0)))"
    by (simp add: k thirds_members thirds_exact_means)
  have "dval (lon a0) \<noteq> of_int (- 1) / 3"
    by (rule dval_not_third) simp
  then have lo: "dval (lon a0)
      \<noteq> exact_mean (map lon (district_members thirds_records (postcode_district a0)))"
    by (simp add: k thirds_members thirds_exact_means)
  from a la lo show "\<exists>a. a \<in> set (aggregate_districts fmean thirds_records)
     \<and> dval (lat a)
         \<noteq> exact_mean (map lat (district_members thirds_records (postcode_district a)))
     \<and> dval (lon a)
         \<noteq> exact_mean (map lon (district_members thirds_records (postcode_district a)))"
    unfolding a0_def by blast
qed

section \<open>Properties of the dashboard and of geocoding\<close>

lemma get_coordinates_str: "\<exists>c. get_coordinates d (PStr s) = Inr c"
  by (simp add: get_coordinates_def Let_def split: option.splits)

lemma load_data_loop_returns:
  assumes "\<forall>p \<in> set ps. \<exists>c. dashboard_get_coordinates dash p = Inr c"
  shows "load_data_loop dash ps = Inr (map (kept_cells dash) ps)"
  using assms
proof (induction ps)
  case Nil
  then show ?case by simp
next
  case (Cons p ps)
  then obtain c where c: "dashboard_get_coordinates dash p = Inr c"
    by auto
  have "(if c \<noteq> None \<and> c \<noteq> Some fallback then coord_cells c else (PNone, PNone)) = kept_cells dash p"
    by (cases c) (auto simp: kept_cells_def coord_cells_def c)
  with Cons c show ?case
    by simp
qed

lemma zip_update:
  "map (\<lambda>(r, v). r(c := v)) (zip (map F rs) (map k rs)) = map (\<lambda>r. (F r)(c := k r)) rs"
  by (induction rs) auto

lemma zip_update_same:
  "map (\<lambda>(r, v). r(c := v)) (zip rs (map k rs)) = map (\<lambda>r. r(c := k r)) rs"
  by (induction rs) auto

lemma set_columns_lat_lon:
  "rows (set_column ''lon'' (map sn (rows df)) (set_column ''lat'' (map fs (rows df)) df))
     = map (\<lambda>r. r(''lat'' := store (float_column (map fs (rows df))) (fs r),
                   ''lon'' := store (float_column (map sn (rows df))) (sn r))) (rows df)"
proof -
  have "rows (set_column ''lat'' (map fs (rows df)) df)
      = map (\<lambda>r. r(''lat'' := store (float_column (map fs (rows df))) (fs r))) (rows df)"
    unfolding set_column_def column_values_def map_map comp_def
    by (simp only: dataframe.simps zip_update_same)
  moreover have "rows (set_column ''lon'' (map sn (rows df)) df')
      = map (\<lambda>(r, v). r(''lon'' := v))
          (zip (rows df') (map (\<lambda>r. store (float_column (map sn (rows df))) (sn r)) (rows df)))" for df'
    unfolding set_column_def column_values_def map_map comp_def
    by (simp only: dataframe.simps)
  ultimately show ?thesis
    by (simp only: zip_update)
qed

lemma columns_lat_lon:
  "columns (set_column ''lon'' v2 (set_column ''lat'' v1 df))
     = columns df @ filter (\<lambda>c. c \<notin> set (columns df)) [''lat'', ''lon'']"
  by (simp add: set_column_def)

lemma dropna_kept:
  "filter (\<lambda>r. \<not> isna (r ''lat'') \<and> \<not> isna (r ''lon''))
     (map (\<lambda>r. r(''lat'' := store b1 (fst (kept_cells dash (r ''postcode''))),
                 ''lon'' := store b2 (snd (kept_cells dash (r ''postcode''))))) rs)
   = List.map_filter
       (\<lambda>r. case dashboard_get_coordinates dash (r ''postcode'') of
              Inr (Some c) \<Rightarrow>
                if c = fallback then None
                else Some (r(''lat'' := PNum (fst c), ''lon'' := PNum (snd c)))
            | _ \<Rightarrow> None) rs"
  by (induction rs)
    (auto simp: kept_cells_def store_def split: sum.splits option.splits)

lemma found_cells_float:
  "is_float (fst (found_cells d p)) \<longleftrightarrow> (\<exists>c. get_coordinates d p = Inr (Some c))"
  "is_float (snd (found_cells d p)) \<longleftrightarrow> (\<exists>c. get_coordinates d p = Inr (Some c))"
  "\<not> is_str (fst (found_cells d p))"
  "\<not> is_str (snd (found_cells d p))"
proof -
  show "is_float (fst (found_cells d p)) \<longleftrightarrow> (\<exists>c. get_coordinates d p = Inr (Some c))"
  proof (cases "get_coordinates d p")
    case (Inl e)
    then show ?thesis by (simp add: found_cells_def)
  next
    case (Inr co)
    then show ?thesis by (cases co) (simp_all add: found_cells_def)
  qed
  show "is_float (snd (found_cells d p)) \<longleftrightarrow> (\<exists>c. get_coordinates d p = Inr (Some c))"
  proof (cases "get_coordinates d p")
    case (Inl e)
    then show ?thesis by (simp add: found_cells_def)
  next
    case (Inr co)
    then show ?thesis by (cases co) (simp_all add: found_cells_def)
  qed
  show "\<not> is_str (fst (found_cells d p))"
  proof (cases "get_coordinates d p")
    case (Inl e)
    then show ?thesis by (simp add: found_cells_def)
  next
    case (Inr co)
    then show ?thesis by (cases co) (simp_all add: found_cells_def)
  qed
  show "\<not> is_str (snd (found_cells d p))"
  proof (cases "get_coordinates d p")
    case (Inl e)
    then show ?thesis by (simp add: found_cells_def)
  next
    case (Inr co)
    then show ?thesis by (cases co) (simp_all add: found_cells_def)
  qed
qed

lemma found_float_column:
  "float_column (map (\<lambda>r. fst (found_cells d (r pc))) rs)
     \<longleftrightarrow> (\<exists>r \<in> set rs. \<exists>c. get_coordinates d (r pc) = Inr (Some c))"
  "float_column (map (\<lambda>r. snd (found_cells d (r pc))) rs)
     \<longleftrightarrow> (\<exists>r \<in> set rs. \<exists>c. get_coordinates d (r pc) = Inr (Some c))"
  by (simp_all add: float_column_def list_ex_iff found_cells_float)

lemma geocode_loop_returns:
  assumes "\<forall>p \<in> set ps. \<exists>c. get_coordinates d p = Inr c"
  shows "geocode_loop d ps = Inr (map (found_cells d) ps)"
  using assms
proof (induction ps)
  case Nil
  then show ?case by simp
next
  case (Cons p ps)
  then obtain c where c: "get_coordinates d p = Inr c"
    by auto
  have "coord_cells c = found_cells d p"
    by (cases c) (auto simp: found_cells_def coord_cells_def c)
  with Cons c show ?case
    by simp
qed

lemma example_lookups:
  "get_coordinates example_dict (PStr ''n2 9ql'') = Inr (Some (51.59, - 0.17))"
  "get_coordinates example_dict (PStr ''EC1A1BB'') = Inr (Some fallback)"
  "get_coordinates example_dict (PStr ''ZZ9 9ZZ'') = Inr None"
  by (simp_all add: get_coordinates_def clean_postcode_def remove_spaces_def upper_def
        upper_char_def strip_def is_space_def space_variants_def slice_to_minus_def
        slice_from_minus_def example_dict_def fallback_def)

lemma example_dict_loaded: "example_dict \<noteq> Map.empty"
  by (simp add: example_dict_def)

lemma failed_download_fails_load:
  assumes "\<forall>c. cache env \<noteq> Cache c" and "local_csv env = None" and "download env = None"
  shows "fst (load_postcode_data env False d) = False"
  using assms
  by (cases "cache env") (simp_all add: load_postcode_data_def load_from_csv_def)

lemma dashboard_get_coordinates_str: "\<exists>c. dashboard_get_coordinates dash (PStr s) = Inr c"
  using get_coordinates_str [of _ s]
  by (simp add: dashboard_get_coordinates_def split: option.splits)

lemma geocode_dataframe_empty_frame:
  "d \<noteq> Map.empty \<Longrightarrow> pc \<in> set (columns df) \<Longrightarrow> rows df = [] \<Longrightarrow>
     geocode_dataframe d df pc = Inl ZeroDivisionError"
  by (simp add: geocode_dataframe_def set_column_def)

text \<open>
  Claim C8. When \<open>load_postcode_data\<close> fails, the dashboard keeps no geocoder, and its
  \<open>get_coordinates\<close> returns the fallback coordinate \<open>(51.5074, -0.1278)\<close> for every
  argument. The lookup only reads the dashboard: nothing is loaded again.
\<close>

theorem load_failure_fallback:
  assumes "fst (load_postcode_data env False Map.empty) = False"
  shows "dashboard_get_coordinates (dashboard_init env) v = Inr (Some fallback)
    \<and> fallback = (51.5074, - 0.1278)"
  using assms
  by (auto simp: dashboard_get_coordinates_def dashboard_init_def fallback_def split: prod.splits)

theorem load_failure_fallback_witness:
  "dashboard_get_coordinates (dashboard_init failed_download_env) (PStr ''N2 9QL'')
     = Inr (Some fallback)"
proof -
  have "fst (load_postcode_data failed_download_env False Map.empty) = False"
    by (simp add: load_postcode_data_def load_from_csv_def failed_download_env_def)
  from load_failure_fallback [OF this] show ?thesis
    by blast
qed

text \<open>
  Claim C9. When the frame has a \<open>postcode\<close> column and every lookup returns (as it does
  on strings), \<open>load_data\<close> returns the frame of exactly those rows whose lookup found a
  coordinate other than the fallback coordinate, with that coordinate in \<open>lat\<close> and
  \<open>lon\<close>. A row whose lookup returns not-found, or finds exactly the fallback
  coordinate, is dropped.
\<close>

theorem load_data_drops_fallback:
  assumes col: "''postcode'' \<in> set (columns df)"
    and ret: "\<forall>r \<in> set (rows df). \<exists>c. dashboard_get_coordinates dash (r ''postcode'') = Inr c"
  shows "\<exists>out. load_data_coordinates dash df = Inr out
    \<and> rows out =
        List.map_filter
          (\<lambda>r. case dashboard_get_coordinates dash (r ''postcode'') of
                 Inr (Some c) \<Rightarrow>
                   if c = fallback then None
                   else Some (r(''lat'' := PNum (fst c), ''lon'' := PNum (snd c)))
               | _ \<Rightarrow> None) (rows df)"
proof -
  from ret have loop: "load_data_loop dash (map (\<lambda>r. r ''postcode'') (rows df))
      = Inr (map (kept_cells dash) (map (\<lambda>r. r ''postcode'') (rows df)))"
    by (intro load_data_loop_returns) auto
  define b1 where
    "b1 = float_column (map (\<lambda>r. fst (kept_cells dash (r ''postcode''))) (rows df))"
  define b2 where
    "b2 = float_column (map (\<lambda>r. snd (kept_cells dash (r ''postcode''))) (rows df))"
  have "rows (set_column ''lon'' (map snd (map (kept_cells dash) (map (\<lambda>r. r ''postcode'') (rows df))))
          (set_column ''lat'' (map fst (map (kept_cells dash) (map (\<lambda>r. r ''postcode'') (rows df)))) df))
     = map (\<lambda>r. r(''lat'' := store b1 (fst (kept_cells dash (r ''postcode''))),
                   ''lon'' := store b2 (snd (kept_cells dash (r ''postcode''))))) (rows df)"
    using set_columns_lat_lon
      [of "\<lambda>r. snd (kept_cells dash (r ''postcode''))" df
          "\<lambda>r. fst (kept_cells dash (r ''postcode''))"]
    by (simp add: comp_def b1_def b2_def)
  with col loop show ?thesis
    by (simp add: load_data_coordinates_def dropna_def dropna_kept)
qed

theorem load_data_drops_fallback_witness:
  "\<exists>out. load_data_coordinates example_dashboard example_frame = Inr out
     \<and> rows out = [(rows example_frame ! 0)(''lat'' := PNum 51.59, ''lon'' := PNum (- 0.17))]"
proof -
  have look: "dashboard_get_coordinates example_dashboard v = get_coordinates example_dict v" for v
    by (simp add: dashboard_get_coordinates_def example_dashboard_def)
  have col: "''postcode'' \<in> set (columns example_frame)"
    by (simp add: example_frame_def)
  have ret: "\<forall>r \<in> set (rows example_frame).
      \<exists>c. dashboard_get_coordinates example_dashboard (r ''postcode'') = Inr c"
    by (simp add: example_frame_def look example_lookups)
  have "fallback \<noteq> (51.59, - 0.17)"
    by (simp add: fallback_def)
  with load_data_drops_fallback [OF col ret] show ?thesis
    by (simp add: example_frame_def look example_lookups)
qed

text \<open>
  Claim C10, as amended. With a non-empty dictionary, a frame that has the postcode
  column and at least one row, and lookups that all return (as they do on strings and
  on \<open>None\<close>), \<open>geocode_dataframe\<close> returns a frame with the same number of rows in the
  same order, in which every column other than \<open>lat\<close> and \<open>lon\<close> is unchanged and \<open>lat\<close>
  and \<open>lon\<close> hold the looked-up coordinate of the row's postcode, or a missing value in
  both when the lookup returns not-found: NaN when the postcode of some row of the frame
  is found (the columns are then float64), \<open>None\<close> when none is. \<open>lat\<close> and \<open>lon\<close> are
  appended to the column names unless the frame had them. With an empty dictionary the
  frame is returned as it is.
\<close>

theorem geocode_dataframe_frame:
  assumes loaded: "d \<noteq> Map.empty"
    and col: "pc \<in> set (columns df)"
    and ret: "\<forall>r \<in> set (rows df). \<exists>c. get_coordinates d (r pc) = Inr c"
    and nonempty: "rows df \<noteq> []"
  shows "(\<exists>out. geocode_dataframe d df pc = Inr out
      \<and> length (rows out) = length (rows df)
      \<and> columns out = columns df @ filter (\<lambda>c. c \<notin> set (columns df)) [''lat'', ''lon'']
      \<and> (\<forall>i < length (rows df).
            (\<forall>c. c \<noteq> ''lat'' \<and> c \<noteq> ''lon'' \<longrightarrow> (rows out ! i) c = (rows df ! i) c)
            \<and> ((rows out ! i) ''lat'', (rows out ! i) ''lon'') =
                (case get_coordinates d ((rows df ! i) pc) of
                   Inr (Some c) \<Rightarrow> (PNum (fst c), PNum (snd c))
                 | _ \<Rightarrow>
                     if \<exists>r \<in> set (rows df). \<exists>c. get_coordinates d (r pc) = Inr (Some c)
                     then (PNaN, PNaN) else (PNone, PNone))))
    \<and> geocode_dataframe Map.empty df pc = Inr df"
proof -
  define cells where "cells = map (found_cells d) (map (\<lambda>r. r pc) (rows df))"
  define found where
    "found \<longleftrightarrow> (\<exists>r \<in> set (rows df). \<exists>c. get_coordinates d (r pc) = Inr (Some c))"
  define out where
    "out = set_column ''lon'' (map snd cells) (set_column ''lat'' (map fst cells) df)"
  from ret have loop: "geocode_loop d (map (\<lambda>r. r pc) (rows df)) = Inr cells"
    unfolding cells_def by (intro geocode_loop_returns) auto
  have fc: "float_column (map (\<lambda>r. fst (found_cells d (r pc))) (rows df)) = found"
    "float_column (map (\<lambda>r. snd (found_cells d (r pc))) (rows df)) = found"
    unfolding found_def by (rule found_float_column)+
  have out_rows: "rows out
      = map (\<lambda>r. r(''lat'' := store found (fst (found_cells d (r pc))),
                    ''lon'' := store found (snd (found_cells d (r pc))))) (rows df)"
    unfolding out_def cells_def
    using set_columns_lat_lon
      [of "\<lambda>r. snd (found_cells d (r pc))" df "\<lambda>r. fst (found_cells d (r pc))"]
    by (simp add: comp_def fc)
  have len: "length (rows out) = length (rows df)"
    by (simp add: out_rows)
  from nonempty len have "rows out \<noteq> []"
    by auto
  then have res: "geocode_dataframe d df pc = Inr out"
    using loaded col
    by (simp add: geocode_dataframe_def loop Let_def flip: out_def)
  have cols: "columns out = columns df @ filter (\<lambda>c. c \<notin> set (columns df)) [''lat'', ''lon'']"
    unfolding out_def by (rule columns_lat_lon)
  have cell: "(\<forall>c. c \<noteq> ''lat'' \<and> c \<noteq> ''lon'' \<longrightarrow> (rows out ! i) c = (rows df ! i) c)
      \<and> ((rows out ! i) ''lat'', (rows out ! i) ''lon'') =
          (case get_coordinates d ((rows df ! i) pc) of
             Inr (Some c) \<Rightarrow> (PNum (fst c), PNum (snd c))
           | _ \<Rightarrow> if found then (PNaN, PNaN) else (PNone, PNone))"
    if "i < length (rows df)" for i
    using that
    by (simp add: out_rows found_cells_def store_def split: sum.splits option.splits)
  have empty: "geocode_dataframe Map.empty df pc = Inr df"
    by (simp add: geocode_dataframe_def)
  from res len cols cell empty show ?thesis
    unfolding found_def by blast
qed

theorem geocode_dataframe_frame_witness:
  "\<exists>out. geocode_dataframe example_dict example_frame ''postcode'' = Inr out
     \<and> length (rows out) = 3
     \<and> columns out = [''postcode'', ''priceper'', ''lat'', ''lon'']
     \<and> (rows out ! 0) ''priceper'' = PNum 3000
     \<and> ((rows out ! 0) ''lat'', (rows out ! 0) ''lon'') = (PNum 51.59, PNum (- 0.17))
     \<and> ((rows out ! 2) ''lat'', (rows out ! 2) ''lon'') = (PNaN, PNaN)"
proof -
  have loaded: "example_dict \<noteq> Map.empty"
    by (simp add: example_dict_def)
  have col: "''postcode'' \<in> set (columns example_frame)"
    by (simp add: example_frame_def)
  have ret: "\<forall>r \<in> set (rows example_frame). \<exists>c. get_coordinates example_dict (r ''postcode'') = Inr c"
    by (simp add: example_frame_def example_lookups)
  have nonempty: "rows example_frame \<noteq> []"
    by (simp add: example_frame_def)
  have found: "\<exists>r \<in> set (rows example_frame).
      \<exists>c. get_coordinates example_dict (r ''postcode'') = Inr (Some c)"
    by (simp add: example_frame_def example_lookups)
  from geocode_dataframe_frame [OF loaded col ret nonempty]
  obtain out where out: "geocode_dataframe example_dict example_frame ''postcode'' = Inr out"
    and len: "length (rows out) = length (rows example_frame)"
    and cols: "columns out = columns example_frame
        @ filter (\<lambda>c. c \<notin> set (columns example_frame)) [''lat'', ''lon'']"
    and cell: "\<And>i. i < length (rows example_frame) \<Longrightarrow>
        (\<forall>c. c \<noteq> ''lat'' \<and> c \<noteq> ''lon'' \<longrightarrow> (rows out ! i) c = (rows example_frame ! i) c)
        \<and> ((rows out ! i) ''lat'', (rows out ! i) ''lon'') =
            (case get_coordinates example_dict ((rows example_frame ! i) ''postcode'') of
               Inr (Some c) \<Rightarrow> (PNum (fst c), PNum (snd c))
             | _ \<Rightarrow>
                 if \<exists>r \<in> set (rows example_frame).
                      \<exists>c. get_coordinates example_dict (r ''postcode'') = Inr (Some c)
                 then (PNaN, PNaN) else (PNone, PNone))"
    by blast
  have c0: "((rows out ! 0) ''lat'', (rows out ! 0) ''lon'') = (PNum 51.59, PNum (- 0.17))"
    and p0: "(rows out ! 0) ''priceper'' = PNum 3000"
    using cell [of 0] by (simp_all add: example_frame_def example_lookups)
  have "((rows out ! 2) ''lat'', (rows out ! 2) ''lon'') =
      (if \<exists>r \<in> set (rows example_frame).
            \<exists>c. get_coordinates example_dict (r ''postcode'') = Inr (Some c)
       then (PNaN, PNaN) else (PNone, PNone))"
    using cell [of 2] by (simp add: example_frame_def example_lookups)
  with found have c2: "((rows out ! 2) ''lat'', (rows out ! 2) ''lon'') = (PNaN, PNaN)"
    by simp
  from len cols have "length (rows out) = 3"
    "columns out = [''postcode'', ''priceper'', ''lat'', ''lon'']"
    by (simp_all add: example_frame_def)
  with out c0 p0 c2 show ?thesis
    by blast
qed

text \<open>
  Claim C10 as stated fails. With an empty dictionary no column is added, although
  every lookup would return not-found; a column \<open>lat\<close> that the frame already has is
  overwritten; and in a frame with a found and a not-found postcode the not-found row
  gets NaN, not \<open>None\<close>.
\<close>

theorem geocode_dataframe_frame_counterexample:
  "geocode_dataframe Map.empty example_frame ''postcode'' = Inr example_frame
   \<and> ''lat'' \<notin> set (columns example_frame)
   \<and> ''lon'' \<notin> set (columns example_frame)
   \<and> ''lat'' \<in> set (columns example_located_frame)
   \<and> (rows example_located_frame ! 0) ''lat'' = PNum 50
   \<and> geocode_dataframe example_dict example_located_frame ''postcode'' =
       Inr \<lparr>columns = [''postcode'', ''lat'', ''lon''],
            rows = [(\<lambda>c. PNaN)(''postcode'' := PStr ''ZZ9 9ZZ'', ''lat'' := PNone,
                                  ''lon'' := PNone)]\<rparr>
   \<and> geocode_dataframe example_dict example_frame ''postcode'' =
       Inr \<lparr>columns = [''postcode'', ''priceper'', ''lat'', ''lon''],
            rows = [(\<lambda>c. PNaN)(''postcode'' := PStr ''n2 9ql'', ''priceper'' := PNum 3000,
                                  ''lat'' := PNum 51.59, ''lon'' := PNum (- 0.17)),
                    (\<lambda>c. PNaN)(''postcode'' := PStr ''EC1A1BB'', ''priceper'' := PNum 9000,
                                  ''lat'' := PNum 51.5074, ''lon'' := PNum (- 0.1278)),
                    (\<lambda>c. PNaN)(''postcode'' := PStr ''ZZ9 9ZZ'', ''priceper'' := PNum 4000,
                                  ''lat'' := PNaN, ''lon'' := PNaN)]\<rparr>"
  by (simp add: geocode_dataframe_def example_frame_def example_located_frame_def
        example_lookups example_dict_loaded set_column_def column_values_def
        float_column_def store_def coord_cells_def fallback_def)

end
